theory Spec2Isabelle
  imports Complex_Main "HOL-Library.Word" "HOL-Library.Product_Lexorder" "HOL-Library.Monad_Syntax"
begin

section \<open>The iterator filter context (src/index/iterator_filter.cpp)\<close>

text \<open>
  The context keeps a priority queue of (distance, id) pairs, two arrays of
  \<open>max_size\<close> cells and a distance cache. Distances are C++ floats; they are only
  stored and compared here, so they are modelled as reals (no NaN). The element type
  \<open>VisitedListType\<close> of the two arrays is declared outside these sources: it is an unsigned
  integer of some width, kept as the type parameter \<open>'v\<close>.
\<close>

datatype ErrorType = INVALID_ARGUMENT | NO_ENOUGH_MEMORY

subsection \<open>std::priority_queue of pairs\<close>

text \<open>
  \<open>std::priority_queue<std::pair<float, InnerIdType>>\<close> with the default comparison is a
  max-heap under the lexicographic order of pairs. Only \<open>top\<close>, \<open>pop\<close>, \<open>emplace\<close>,
  \<open>size\<close> and \<open>empty\<close> are used, so the queue is modelled by the list of its entries;
  \<open>top\<close> and \<open>pop\<close> on an empty queue are undefined behaviour and return \<open>None\<close>.
\<close>

type_synonym pq = "(real \<times> nat) list"

definition pq_top :: "pq \<Rightarrow> (real \<times> nat) option" where
  "pq_top h = (if h = [] then None else Some (Max (set h)))"

definition pq_pop :: "pq \<Rightarrow> pq option" where
  "pq_pop h = (if h = [] then None else Some (remove1 (Max (set h)) h))"

definition pq_emplace :: "real \<times> nat \<Rightarrow> pq \<Rightarrow> pq" where
  "pq_emplace x h = x # h"

subsection \<open>The context\<close>

text \<open>The fields carry the names of the members without the trailing underscore;
  \<open>list_\<close> is \<open>visited_list\<close>.\<close>

record (overloaded) 'v IteratorFilterContext =
  ef_search :: int
  is_first_used :: bool
  max_size :: nat
  visited_list :: "'v word list"
  visited_time :: "'v word list"
  discard :: pq
  inner_distance :: "nat \<rightharpoonup> real"

text \<open>
  \<open>init(max_size, ef_search, allocator)\<close>. The flag \<open>alloc_ok\<close> says whether the
  allocator delivered both arrays (otherwise \<open>std::bad_alloc\<close> is caught). The first-use
  flag is not touched by \<open>init\<close>; its initial value \<open>first\<close> comes from the class
  declaration, which is not part of these sources.
\<close>

definition init ::
  "bool \<Rightarrow> bool \<Rightarrow> nat \<Rightarrow> int \<Rightarrow> ErrorType + 'v::len IteratorFilterContext" where
  "init first alloc_ok n ef =
     (if ef = 0 \<or> n = 0 then Inl INVALID_ARGUMENT
      else if \<not> alloc_ok then Inl NO_ENOUGH_MEMORY
      else Inr \<lparr> ef_search = ef,
                 is_first_used = first,
                 max_size = n,
                 visited_list = replicate n 0,
                 visited_time = replicate n 0,
                 discard = [],
                 inner_distance = Map.empty \<rparr>)"

text \<open>
  \<open>discard_->size() >= ef_search_*2\<close> compares a \<open>size_t\<close> with a signed 64-bit value:
  the signed operand is converted to unsigned, that is, taken modulo \<open>2^64\<close>.
\<close>

definition size_ge_i64 :: "nat \<Rightarrow> int \<Rightarrow> bool" where
  "size_ge_i64 n x = (x mod 2 ^ 64 \<le> int n)"

definition AddDiscardNode ::
  "real \<Rightarrow> nat \<Rightarrow> 'v IteratorFilterContext \<Rightarrow> 'v IteratorFilterContext option" where
  "AddDiscardNode dis ident c =
     (if size_ge_i64 (length (discard c)) (ef_search c * 2) then
        (case pq_top (discard c) of
           None \<Rightarrow> None
         | Some t \<Rightarrow>
             if fst t > dis then
               (case pq_pop (discard c) of
                  None \<Rightarrow> None
                | Some h \<Rightarrow> Some (c\<lparr>discard := pq_emplace (dis, ident) h\<rparr>))
             else Some c)
      else Some (c\<lparr>discard := pq_emplace (dis, ident) (discard c)\<rparr>))"

definition GetTopID :: "'v IteratorFilterContext \<Rightarrow> int option" where
  "GetTopID c = map_option (\<lambda>t. int (snd t)) (pq_top (discard c))"

definition GetTopDist :: "'v IteratorFilterContext \<Rightarrow> real option" where
  "GetTopDist c = map_option fst (pq_top (discard c))"

definition PopDiscard :: "'v IteratorFilterContext \<Rightarrow> 'v IteratorFilterContext option" where
  "PopDiscard c = map_option (\<lambda>h. c\<lparr>discard := h\<rparr>) (pq_pop (discard c))"

definition Empty :: "'v IteratorFilterContext \<Rightarrow> bool" where
  "Empty c = (discard c = [])"

definition IsFirstUsed :: "'v IteratorFilterContext \<Rightarrow> bool" where
  "IsFirstUsed c = is_first_used c"

definition SetOFFFirstUsed :: "'v IteratorFilterContext \<Rightarrow> 'v IteratorFilterContext" where
  "SetOFFFirstUsed c = c\<lparr>is_first_used := False\<rparr>"

text \<open>The array accesses are unchecked in the source; an index outside the array is
  undefined behaviour and returns \<open>None\<close>.\<close>

definition SetPoint ::
  "nat \<Rightarrow> 'v::len IteratorFilterContext \<Rightarrow> 'v IteratorFilterContext option" where
  "SetPoint ident c =
     (if ident < length (visited_list c) then Some (c\<lparr>visited_list := (visited_list c)[ident := 1]\<rparr>) else None)"

definition CheckPoint :: "nat \<Rightarrow> 'v::len IteratorFilterContext \<Rightarrow> bool option" where
  "CheckPoint ident c =
     (if ident < length (visited_list c) then Some (visited_list c ! ident = 0) else None)"

definition SetVisited ::
  "nat \<Rightarrow> 'v::len IteratorFilterContext \<Rightarrow> 'v IteratorFilterContext option" where
  "SetVisited ident c =
     (if ident < length (visited_time c)
      then Some (c\<lparr>visited_time := (visited_time c)[ident := visited_time c ! ident + 1]\<rparr>)
      else None)"

definition GetDiscardElementNum :: "'v IteratorFilterContext \<Rightarrow> int" where
  "GetDiscardElementNum c = int (length (discard c))"

definition SetDistance ::
  "nat \<Rightarrow> real \<Rightarrow> 'v IteratorFilterContext \<Rightarrow> 'v IteratorFilterContext" where
  "SetDistance ident d c = c\<lparr>inner_distance := (inner_distance c)(ident \<mapsto> d)\<rparr>"

definition GetDistance :: "nat \<Rightarrow> 'v IteratorFilterContext \<Rightarrow> real" where
  "GetDistance ident c = (case inner_distance c ident of None \<Rightarrow> - 1 | Some d \<Rightarrow> d)"

text \<open>
  Every public member function other than \<open>init\<close> and the destructor, as a call. The
  functions that only read (\<open>GetTopID\<close>, \<open>GetTopDist\<close>, \<open>Empty\<close>, \<open>IsFirstUsed\<close>,
  \<open>CheckPoint\<close>, \<open>GetDiscardElementNum\<close>, \<open>PrintVisited\<close>, \<open>GetDistance\<close>) leave the
  context as it is; a call with undefined behaviour has no successor state.
\<close>

datatype call =
    CallAddDiscardNode real nat
  | CallGetTopID
  | CallGetTopDist
  | CallPopDiscard
  | CallEmpty
  | CallIsFirstUsed
  | CallSetOFFFirstUsed
  | CallSetPoint nat
  | CallCheckPoint nat
  | CallSetVisited nat
  | CallGetDiscardElementNum
  | CallPrintVisited
  | CallSetDistance nat real
  | CallGetDistance nat

fun exec :: "call \<Rightarrow> 'v::len IteratorFilterContext \<Rightarrow> 'v IteratorFilterContext option" where
  "exec (CallAddDiscardNode d i) c = AddDiscardNode d i c"
| "exec CallGetTopID c = map_option (\<lambda>_. c) (GetTopID c)"
| "exec CallGetTopDist c = map_option (\<lambda>_. c) (GetTopDist c)"
| "exec CallPopDiscard c = PopDiscard c"
| "exec CallEmpty c = Some c"
| "exec CallIsFirstUsed c = Some c"
| "exec CallSetOFFFirstUsed c = Some (SetOFFFirstUsed c)"
| "exec (CallSetPoint i) c = SetPoint i c"
| "exec (CallCheckPoint i) c = map_option (\<lambda>_. c) (CheckPoint i c)"
| "exec (CallSetVisited i) c = SetVisited i c"
| "exec CallGetDiscardElementNum c = Some c"
| "exec CallPrintVisited c = Some c"
| "exec (CallSetDistance i d) c = Some (SetDistance i d c)"
| "exec (CallGetDistance i) c = Some c"

fun run :: "call list \<Rightarrow> 'v::len IteratorFilterContext \<Rightarrow> 'v IteratorFilterContext option" where
  "run [] c = Some c"
| "run (x # xs) c = (case exec x c of None \<Rightarrow> None | Some c' \<Rightarrow> run xs c')"

subsection \<open>Auxiliary notions for the discard heap\<close>



section \<open>Distance kernels (src/simd/generic.cpp)\<close>







text \<open>
  The INT8 kernel multiplies two \<open>int8_t\<close> cells as \<open>int\<close> (no overflow: the product is at
  most \<open>2^14\<close> in magnitude), adds the products in a \<open>double\<close> and returns the sum as a
  \<open>float\<close>.
\<close>

function INT8InnerProduct_loop ::
  "8 word list \<Rightarrow> 8 word list \<Rightarrow> nat \<Rightarrow> nat \<Rightarrow> real \<Rightarrow> real option" where
  "INT8InnerProduct_loop vec1 vec2 qty i res =
     (if i < qty then
        (if i < length vec1 \<and> i < length vec2 then
           INT8InnerProduct_loop vec1 vec2 qty (i + 1)
             (res + real_of_int (sint (vec1 ! i) * sint (vec2 ! i)))
         else None)
      else Some res)"
  by pat_completeness auto
termination
  by (relation "measure (\<lambda>(vec1, vec2, qty, i, res). qty - i)") auto

declare INT8InnerProduct_loop.simps [simp del]

definition INT8InnerProduct :: "8 word list \<Rightarrow> 8 word list \<Rightarrow> nat \<Rightarrow> real option" where
  "INT8InnerProduct pVect1 pVect2 qty = INT8InnerProduct_loop pVect1 pVect2 qty 0 0"

definition INT8InnerProductDistance :: "8 word list \<Rightarrow> 8 word list \<Rightarrow> nat \<Rightarrow> real option" where
  "INT8InnerProductDistance pVect1 pVect2 qty =
     map_option (\<lambda>ip. - ip) (INT8InnerProduct pVect1 pVect2 qty)"

section \<open>The ODescent graph builder (src/impl/odescent_graph_builder.h, .cpp)\<close>

subsection \<open>Nodes and link lists\<close>

text \<open>
  Internal ids are \<open>uint32_t\<close> values below the number of points and are modelled as
  naturals; distances are floats, which the builder compares, copies and (in the pruning
  rule) multiplies by \<open>alpha\<close>: they are modelled as reals. The field \<open>id\<close> of a node is named
  \<open>ident\<close>.
\<close>

record Node =
  old :: bool
  ident :: nat
  distance :: real

text \<open>The constructor \<open>Node(id, distance)\<close> leaves \<open>old\<close> at its default \<open>false\<close>.\<close>

definition new_Node :: "nat \<Rightarrow> real \<Rightarrow> Node" where
  "new_Node i d = \<lparr>old = False, ident = i, distance = d\<rparr>"

text \<open>\<open>Node::operator<\<close> orders by distance and puts old nodes first among equal distances;
  \<open>Node::operator==\<close> compares the ids only.\<close>

definition node_less :: "Node \<Rightarrow> Node \<Rightarrow> bool" where
  "node_less a b =
     (if distance a \<noteq> distance b then distance a < distance b else old a \<and> \<not> old b)"

definition node_eq :: "Node \<Rightarrow> Node \<Rightarrow> bool" where
  "node_eq a b = (ident a = ident b)"

record Linklist =
  neighbors :: "Node list"
  greast_neighbor_distance :: real

definition FLT_MAX :: real where
  "FLT_MAX = 340282346638528859811704183484516925440"

definition new_Linklist :: Linklist where
  "new_Linklist = \<lparr>neighbors = [], greast_neighbor_distance = FLT_MAX\<rparr>"

subsection \<open>std::sort, std::unique and the truncation\<close>

text \<open>
  \<open>std::sort\<close> sorts by \<open>operator<\<close> and leaves the order of equivalent elements
  unspecified. The model is the straight insertion sort that libstdc++ runs on ranges of at
  most 16 elements: each element moves left past the elements it is less than, so
  equivalent elements keep their order.
\<close>

fun linear_insert :: "Node \<Rightarrow> Node list \<Rightarrow> Node list" where
  "linear_insert v [] = [v]"
| "linear_insert v (x # xs) = (if node_less v x then v # x # xs else x # linear_insert v xs)"

definition std_sort :: "Node list \<Rightarrow> Node list" where
  "std_sort xs = fold linear_insert xs []"

text \<open>\<open>std::unique\<close> followed by \<open>erase\<close>: of every run of consecutive elements equal under
  \<open>operator==\<close> only the first stays.\<close>

fun std_unique :: "Node list \<Rightarrow> Node list" where
  "std_unique [] = []"
| "std_unique [x] = [x]"
| "std_unique (x # y # ys) = (if node_eq x y then std_unique (x # ys) else x # std_unique (y # ys))"

text \<open>
  \<open>if (neighbors.size() > max_degree_) neighbors.resize(max_degree_)\<close>: the signed 64-bit
  \<open>max_degree_\<close> is converted to \<open>size_t\<close>, that is, taken modulo \<open>2^64\<close>.
\<close>

definition to_size_t :: "int \<Rightarrow> nat" where
  "to_size_t x = nat (x mod 2 ^ 64)"

definition truncate_to :: "int \<Rightarrow> Node list \<Rightarrow> Node list" where
  "truncate_to max_degree xs =
     (if length xs > to_size_t max_degree then take (to_size_t max_degree) xs else xs)"

subsection \<open>The builder object and its loops\<close>

text \<open>
  The members of \<open>ODescent\<close> that the construction reads or writes, without the trailing
  underscore. \<open>TotalCount\<close> and \<open>ComputePairVectors\<close> are the two functions of the flatten
  interface the builder calls. The mutexes are left out: the model runs the tasks of a
  phase one after the other, block by block.
\<close>

record ODescent =
  data_num :: int
  is_build :: bool
  max_degree :: int
  alpha :: real
  turn :: int
  graph :: "Linklist list"
  min_in_degree :: int
  block_size :: int
  pruning :: bool
  sample_rate :: real
  TotalCount :: int
  ComputePairVectors :: "nat \<Rightarrow> nat \<Rightarrow> real"

text \<open>The constructor; \<open>min_in_degree_\<close> and \<open>block_size_\<close> have the initializers 1 and 10000.\<close>

definition new_ODescent ::
  "int \<Rightarrow> real \<Rightarrow> int \<Rightarrow> real \<Rightarrow> int \<Rightarrow> (nat \<Rightarrow> nat \<Rightarrow> real) \<Rightarrow> bool \<Rightarrow> ODescent" where
  "new_ODescent max_degree0 alpha0 turn0 sample_rate0 total0 pair_distance pruning0 =
     \<lparr> data_num = 0, is_build = False, max_degree = max_degree0, alpha = alpha0, turn = turn0,
       graph = [], min_in_degree = 1, block_size = 10000, pruning = pruning0,
       sample_rate = sample_rate0, TotalCount = total0, ComputePairVectors = pair_distance \<rparr>"

definition get_distance :: "ODescent \<Rightarrow> nat \<Rightarrow> nat \<Rightarrow> real" where
  "get_distance b loc1 loc2 = ComputePairVectors b loc1 loc2"

text \<open>A counted loop \<open>for (i = start; i < stop; ++i)\<close> whose body may fail.\<close>

definition for_range :: "(nat \<Rightarrow> 's \<Rightarrow> 's option) \<Rightarrow> nat \<Rightarrow> nat \<Rightarrow> 's \<Rightarrow> 's option" where
  "for_range body start stop s = fold (\<lambda>i r. Option.bind r (body i)) [start..<stop] (Some s)"

text \<open>
  \<open>parallelize_task\<close> cuts \<open>[0, data_num_)\<close> into blocks of \<open>block_size_\<close> ids and hands each
  block to the thread pool. The model runs the blocks in ascending order. A block size that
  is not positive makes the enqueueing loop run forever: no result.
\<close>

function parallelize_blocks ::
  "nat \<Rightarrow> nat \<Rightarrow> (nat \<Rightarrow> nat \<Rightarrow> 's \<Rightarrow> 's option) \<Rightarrow> nat \<Rightarrow> 's \<Rightarrow> 's option" where
  "parallelize_blocks bs n task i s =
     (if i < n then
        (if bs = 0 then None
         else
           (case task i (min (i + bs) n) s of
              None \<Rightarrow> None
            | Some s' \<Rightarrow> parallelize_blocks bs n task (i + bs) s'))
      else Some s)"
  by pat_completeness auto
termination
  by (relation "measure (\<lambda>(bs, n, task, i, s). n - i)") auto

declare parallelize_blocks.simps [simp del]

definition parallelize_task ::
  "ODescent \<Rightarrow> (nat \<Rightarrow> nat \<Rightarrow> 's \<Rightarrow> 's option) \<Rightarrow> 's \<Rightarrow> 's option" where
  "parallelize_task b task s =
     parallelize_blocks (nat (block_size b)) (nat (data_num b)) task 0 s"

text \<open>A range-based \<open>for\<close> over a container whose body may fail.\<close>

definition for_each :: "('a \<Rightarrow> 's \<Rightarrow> 's option) \<Rightarrow> 'a list \<Rightarrow> 's \<Rightarrow> 's option" where
  "for_each body xs s = fold (\<lambda>x r. Option.bind r (body x)) xs (Some s)"

text \<open>
  \<open>UnorderedSet<uint32_t>\<close>: a list without repetitions. The iteration order of
  \<open>std::unordered_set\<close> is unspecified; the model iterates in the order of insertion.
\<close>

definition set_insert :: "nat \<Rightarrow> nat list \<Rightarrow> nat list" where
  "set_insert x s = (if x \<in> set s then s else s @ [x])"

text \<open>\<open>std::vector::resize(n, v)\<close>.\<close>

definition vector_resize :: "nat \<Rightarrow> 'a \<Rightarrow> 'a list \<Rightarrow> 'a list" where
  "vector_resize n v xs = take n xs @ replicate (n - length xs) v"

subsection \<open>The sources of randomness\<close>

text \<open>
  The builder has no seed parameter. \<open>init_graph\<close> draws ids from a Mersenne twister
  seeded by \<open>std::random_device\<close>, and every sampling task constructs a linear congruential
  generator from the reading of \<open>std::chrono::steady_clock\<close>. Both are inputs of the model:
  \<open>draws\<close> lists the results of \<open>k_generate(rng)\<close> in the order of the calls (an exhausted
  list stands for a generator that never delivers a fresh id: no result), \<open>clock k\<close> is the
  \<open>k\<close>-th reading of the clock in milliseconds, and \<open>reads\<close> counts the readings made.
\<close>

record Entropy =
  draws :: "nat list"
  clock :: "nat \<Rightarrow> int"
  reads :: nat

definition LCG_A :: "32 word" where "LCG_A = 1664525"
definition LCG_C :: "32 word" where "LCG_C = 1013904223"
definition LCG_M :: "32 word" where "LCG_M = 4294967295"

text \<open>The constructor casts the timestamp to \<open>unsigned int\<close>.\<close>

definition new_LinearCongruentialGenerator :: "int \<Rightarrow> 32 word" where
  "new_LinearCongruentialGenerator timestamp = word_of_int timestamp"

definition NextFloat :: "32 word \<Rightarrow> real \<times> 32 word" where
  "NextFloat current =
     (let current' = (LCG_A * current + LCG_C) mod LCG_M
      in (real_of_int (uint current') / real_of_int (uint LCG_M), current'))"

subsection \<open>init_graph\<close>

text \<open>The rejection loop \<open>while (ids_set.find(id) != ids_set.end()) id = k_generate(rng)\<close>.\<close>

fun draw_fresh :: "nat list \<Rightarrow> nat \<Rightarrow> nat list \<Rightarrow> (nat \<times> nat list) option" where
  "draw_fresh ids_set i [] = (if i \<in> set ids_set then None else Some (i, []))"
| "draw_fresh ids_set i (d # ds) =
     (if i \<in> set ids_set then draw_fresh ids_set d ds else Some (i, d # ds))"

text \<open>The body of the loop over \<open>j\<close>, on the link list of node \<open>i\<close>, the set of ids in use
  and the draws left.\<close>

definition init_neighbor ::
  "ODescent \<Rightarrow> nat \<Rightarrow> nat \<Rightarrow> Linklist \<times> nat list \<times> nat list \<Rightarrow> (Linklist \<times> nat list \<times> nat list) option" where
  "init_neighbor b i j = (\<lambda>(l, ids_set, ds).
     do {
       (k, ds') \<leftarrow> (if data_num b - 1 < max_degree b
                    then Some ((i + j + 1) mod nat (data_num b), ds)
                    else draw_fresh ids_set i ds);
       let d = get_distance b i k;
       Some (l\<lparr>neighbors := neighbors l @ [new_Node k d],
               greast_neighbor_distance := max (greast_neighbor_distance l) d\<rparr>,
             set_insert k ids_set, ds')
     })"

definition init_node ::
  "ODescent \<Rightarrow> nat \<Rightarrow> Linklist list \<times> nat list \<Rightarrow> (Linklist list \<times> nat list) option" where
  "init_node b i = (\<lambda>(g, ds).
     if i < length g then
       do {
         let max_neighbors = min (data_num b - 1) (max_degree b);
         (l, ids_set, ds') \<leftarrow> for_range (init_neighbor b i) 0 (nat max_neighbors) (g ! i, [i], ds);
         Some (g[i := l], ds')
       }
     else None)"

definition init_graph :: "ODescent \<Rightarrow> Entropy \<Rightarrow> (ODescent \<times> Entropy) option" where
  "init_graph b en =
     do {
       let g0 = vector_resize (nat (data_num b)) new_Linklist (graph b);
       (g, ds) \<leftarrow> parallelize_task b (for_range (init_node b)) (g0, draws en);
       Some (b\<lparr>graph := g\<rparr>, en\<lparr>draws := ds\<rparr>)
     }"

subsection \<open>sample_candidates\<close>

definition sample_edge ::
  "ODescent \<Rightarrow> nat \<Rightarrow> nat \<Rightarrow> Linklist list \<times> nat list list \<times> nat list list \<times> 32 word
     \<Rightarrow> (Linklist list \<times> nat list list \<times> nat list list \<times> 32 word) option" where
  "sample_edge b i j = (\<lambda>(g, old_neighbors, new_neighbors, r).
     if i < length g \<and> j < length (neighbors (g ! i)) then
       (let (current_state, r') = NextFloat r; n = neighbors (g ! i) ! j in
        if current_state < sample_rate b then
          (if old n then
             (if i < length old_neighbors \<and> ident n < length old_neighbors then
                (let o1 = old_neighbors[i := set_insert (ident n) (old_neighbors ! i)];
                     o2 = o1[ident n := set_insert i (o1 ! ident n)]
                 in Some (g, o2, new_neighbors, r'))
              else None)
           else
             (if i < length new_neighbors \<and> ident n < length new_neighbors then
                (let n1 = new_neighbors[i := set_insert (ident n) (new_neighbors ! i)];
                     n2 = n1[ident n := set_insert i (n1 ! ident n)];
                     g' = g[i := (g ! i)\<lparr>neighbors := (neighbors (g ! i))[j := n\<lparr>old := True\<rparr>]\<rparr>]
                 in Some (g', old_neighbors, n2, r'))
              else None))
        else Some (g, old_neighbors, new_neighbors, r'))
     else None)"

definition sample_node ::
  "ODescent \<Rightarrow> nat \<Rightarrow> Linklist list \<times> nat list list \<times> nat list list \<times> 32 word
     \<Rightarrow> (Linklist list \<times> nat list list \<times> nat list list \<times> 32 word) option" where
  "sample_node b i = (\<lambda>(g, old_neighbors, new_neighbors, r).
     if i < length g
     then for_range (sample_edge b i) 0 (length (neighbors (g ! i))) (g, old_neighbors, new_neighbors, r)
     else None)"

text \<open>The task of one block constructs its own generator from the clock.\<close>

definition sample_task ::
  "ODescent \<Rightarrow> nat \<Rightarrow> nat \<Rightarrow> Linklist list \<times> nat list list \<times> nat list list \<times> Entropy
     \<Rightarrow> (Linklist list \<times> nat list list \<times> nat list list \<times> Entropy) option" where
  "sample_task b start stop = (\<lambda>(g, old_neighbors, new_neighbors, en).
     do {
       let r = new_LinearCongruentialGenerator (clock en (reads en));
       (g', o', n', r') \<leftarrow> for_range (sample_node b) start stop (g, old_neighbors, new_neighbors, r);
       Some (g', o', n', en\<lparr>reads := reads en + 1\<rparr>)
     })"

definition sample_candidates ::
  "ODescent \<Rightarrow> nat list list \<times> nat list list \<times> Entropy
     \<Rightarrow> (ODescent \<times> nat list list \<times> nat list list \<times> Entropy) option" where
  "sample_candidates b = (\<lambda>(old_neighbors, new_neighbors, en).
     do {
       (g, o', n', en') \<leftarrow> parallelize_task b (sample_task b) (graph b, old_neighbors, new_neighbors, en);
       Some (b\<lparr>graph := g\<rparr>, o', n', en')
     })"

subsection \<open>update_neighbors\<close>

text \<open>\<open>if (dist < graph[a].greast_neighbor_distance) graph[a].neighbors.emplace_back(c, dist)\<close>.\<close>

definition add_if_closer :: "nat \<Rightarrow> nat \<Rightarrow> real \<Rightarrow> Linklist list \<Rightarrow> Linklist list option" where
  "add_if_closer a c d g =
     (if a < length g then
        Some (if d < greast_neighbor_distance (g ! a)
              then g[a := (g ! a)\<lparr>neighbors := neighbors (g ! a) @ [new_Node c d]\<rparr>]
              else g)
      else None)"

definition join_pair :: "nat \<Rightarrow> nat \<Rightarrow> real \<Rightarrow> Linklist list \<Rightarrow> Linklist list option" where
  "join_pair node_id neighbor_id d g =
     do { g1 \<leftarrow> add_if_closer node_id neighbor_id d g; add_if_closer neighbor_id node_id d g1 }"

text \<open>The body of the loop over \<open>new_neighbors[i]\<close>, on the graph and
  \<open>new_neighbors_candidates\<close>.\<close>

definition update_with ::
  "ODescent \<Rightarrow> nat list \<Rightarrow> nat \<Rightarrow> Linklist list \<times> nat list \<Rightarrow> (Linklist list \<times> nat list) option" where
  "update_with b old_i node_id = (\<lambda>(g, new_neighbors_candidates).
     do {
       g1 \<leftarrow> for_each (\<lambda>neighbor_id. join_pair node_id neighbor_id (get_distance b node_id neighbor_id))
               new_neighbors_candidates g;
       g2 \<leftarrow> for_each (\<lambda>neighbor_id g'.
                 if node_id = neighbor_id then Some g'
                 else join_pair node_id neighbor_id (get_distance b neighbor_id node_id) g')
               old_i g1;
       Some (g2, new_neighbors_candidates @ [node_id])
     })"

definition update_node ::
  "ODescent \<Rightarrow> nat \<Rightarrow> Linklist list \<times> nat list list \<times> nat list list
     \<Rightarrow> (Linklist list \<times> nat list list \<times> nat list list) option" where
  "update_node b i = (\<lambda>(g, old_neighbors, new_neighbors).
     if i < length old_neighbors \<and> i < length new_neighbors then
       do {
         (g', cs) \<leftarrow> for_each (update_with b (old_neighbors ! i)) (new_neighbors ! i) (g, []);
         Some (g', old_neighbors[i := []], new_neighbors[i := []])
       }
     else None)"

text \<open>The compaction \<open>resize_task\<close>; \<open>neighbors.back()\<close> of an empty vector is undefined
  behaviour.\<close>

definition compact :: "int \<Rightarrow> Node list \<Rightarrow> Node list" where
  "compact md ns = truncate_to md (std_unique (std_sort ns))"

definition resize_node :: "ODescent \<Rightarrow> nat \<Rightarrow> Linklist list \<Rightarrow> Linklist list option" where
  "resize_node b i g =
     (if i < length g then
        (let ns = compact (max_degree b) (neighbors (g ! i)) in
         if ns = [] then None
         else Some (g[i := \<lparr>neighbors = ns, greast_neighbor_distance = distance (last ns)\<rparr>]))
      else None)"

definition update_neighbors ::
  "ODescent \<Rightarrow> nat list list \<times> nat list list \<Rightarrow> (ODescent \<times> nat list list \<times> nat list list) option" where
  "update_neighbors b = (\<lambda>(old_neighbors, new_neighbors).
     do {
       (g, o', n') \<leftarrow> parallelize_task b (for_range (update_node b)) (graph b, old_neighbors, new_neighbors);
       g' \<leftarrow> parallelize_task b (for_range (resize_node b)) g;
       Some (b\<lparr>graph := g'\<rparr>, o', n')
     })"

subsection \<open>The in-degree count\<close>

text \<open>
  \<open>repair_no_in_edge\<close> and \<open>prune_graph\<close> start by the same count: a vector of \<open>data_num_\<close>
  zeros, and \<open>in_edges_count[n.id]++\<close> for every entry \<open>n\<close> of the link lists of the nodes
  \<open>0 .. data_num_ - 1\<close>.
\<close>

definition count_entry :: "Node \<Rightarrow> int list \<Rightarrow> int list option" where
  "count_entry n cnt =
     (if ident n < length cnt then Some (cnt[ident n := cnt ! ident n + 1]) else None)"

definition count_node :: "Linklist list \<Rightarrow> nat \<Rightarrow> int list \<Rightarrow> int list option" where
  "count_node g i cnt = (if i < length g then for_each count_entry (neighbors (g ! i)) cnt else None)"

definition count_in_edges :: "ODescent \<Rightarrow> int list option" where
  "count_in_edges b =
     for_range (count_node (graph b)) 0 (nat (data_num b)) (replicate (nat (data_num b)) 0)"

subsection \<open>repair_no_in_edge\<close>

text \<open>
  The body of the \<open>while\<close> loop for node \<open>i\<close> at position \<open>need_replace_loc\<close>, on the
  graph, \<open>in_edges_count\<close> and \<open>replace_pos\<close>. Every vector access is unchecked in the
  source; an index outside the vector is undefined behaviour: no result.
\<close>

definition repair_step ::
  "ODescent \<Rightarrow> nat \<Rightarrow> nat \<Rightarrow> Linklist list \<times> int list \<times> int list
     \<Rightarrow> (Linklist list \<times> int list \<times> int list) option" where
  "repair_step b i need_replace_loc = (\<lambda>(g, in_edges_count, replace_pos).
     (let link = neighbors (g ! i) in
      if need_replace_loc < length link then
        (let need_replace_id = ident (link ! need_replace_loc) in
         if need_replace_id < length g \<and> need_replace_id < length replace_pos then
           (let has_connect = (\<exists>n \<in> set (neighbors (g ! need_replace_id)). ident n = i) in
            if replace_pos ! need_replace_id > 0 \<and> \<not> has_connect then
              (let pos = nat (replace_pos ! need_replace_id);
                   donor = neighbors (g ! need_replace_id) in
               if pos < length donor then
                 (let replace_id = ident (donor ! pos) in
                  if replace_id < length in_edges_count then
                    (let replace_pos' =
                           replace_pos[need_replace_id := replace_pos ! need_replace_id - 1] in
                     if in_edges_count ! replace_id > min_in_degree b then
                       (let c1 = in_edges_count[replace_id := in_edges_count ! replace_id - 1];
                            c2 = c1[i := c1 ! i + 1];
                            node' = (donor ! pos)\<lparr>ident := i,
                                      distance := distance (link ! need_replace_loc)\<rparr>;
                            g' = g[need_replace_id :=
                                    (g ! need_replace_id)\<lparr>neighbors := donor[pos := node']\<rparr>]
                        in Some (g', c2, replace_pos'))
                     else Some (g, in_edges_count, replace_pos'))
                  else None)
               else None)
            else Some (g, in_edges_count, replace_pos))
         else None)
      else None))"

text \<open>The loop \<open>while (in_edges_count[i] < min_in_degree_ && need_replace_loc < max_degree_)\<close>.\<close>

function repair_loop ::
  "ODescent \<Rightarrow> nat \<Rightarrow> nat \<Rightarrow> Linklist list \<times> int list \<times> int list
     \<Rightarrow> (Linklist list \<times> int list \<times> int list) option" where
  "repair_loop b i need_replace_loc (g, in_edges_count, replace_pos) =
     (if i < length in_edges_count \<and> i < length g then
        (if in_edges_count ! i < min_in_degree b \<and> int need_replace_loc < max_degree b then
           (case repair_step b i need_replace_loc (g, in_edges_count, replace_pos) of
              None \<Rightarrow> None
            | Some s' \<Rightarrow> repair_loop b i (need_replace_loc + 1) s')
         else Some (g, in_edges_count, replace_pos))
      else None)"
  by pat_completeness auto
termination
  by (relation "measure (\<lambda>(b, i, loc, s). nat (max_degree b) - loc)") auto

declare repair_loop.simps [simp del]

definition repair_no_in_edge :: "ODescent \<Rightarrow> ODescent option" where
  "repair_no_in_edge b =
     do {
       in_edges_count \<leftarrow> count_in_edges b;
       let replace_pos = replicate (nat (data_num b)) (min (data_num b - 1) (max_degree b) - 1);
       (g, c, r) \<leftarrow> for_range (\<lambda>i. repair_loop b i 0) 0 (nat (data_num b))
                      (graph b, in_edges_count, replace_pos);
       Some (b\<lparr>graph := g\<rparr>)
     }"

subsection \<open>prune_graph\<close>

text \<open>The loop over the candidates kept so far, with its \<open>break\<close>: is there a candidate \<open>c\<close>
  with \<open>get_distance(n.id, c.id) * alpha_ < n.distance\<close>?\<close>

fun occluded :: "ODescent \<Rightarrow> Node \<Rightarrow> Node list \<Rightarrow> bool" where
  "occluded b n [] = False"
| "occluded b n (c # cs) =
     (if get_distance b (ident n) (ident c) * alpha b < distance n then True else occluded b n cs)"

text \<open>The loop over the sorted neighbors of one node, on the candidates and
  \<open>in_edges_count\<close>.\<close>

fun prune_neighbors ::
  "ODescent \<Rightarrow> Node list \<Rightarrow> Node list \<times> int list \<Rightarrow> (Node list \<times> int list) option" where
  "prune_neighbors b [] (candidates, in_edges_count) = Some (candidates, in_edges_count)"
| "prune_neighbors b (n # ns) (candidates, in_edges_count) =
     (if ident n < length in_edges_count then
        (let cur_in_edge = in_edges_count ! ident n in
         if cur_in_edge > min_in_degree b \<and> occluded b n candidates then
           prune_neighbors b ns
             (candidates, in_edges_count[ident n := in_edges_count ! ident n - 1])
         else prune_neighbors b ns (candidates @ [n], in_edges_count))
      else None)"

definition prune_node ::
  "ODescent \<Rightarrow> nat \<Rightarrow> Linklist list \<times> int list \<Rightarrow> (Linklist list \<times> int list) option" where
  "prune_node b loc = (\<lambda>(g, in_edges_count).
     if loc < length g then
       do {
         let ns = std_unique (std_sort (neighbors (g ! loc)));
         (candidates, c') \<leftarrow> prune_neighbors b ns ([], in_edges_count);
         Some (g[loc := (g ! loc)\<lparr>neighbors := truncate_to (max_degree b) candidates\<rparr>], c')
       }
     else None)"

definition prune_graph :: "ODescent \<Rightarrow> ODescent option" where
  "prune_graph b =
     do {
       in_edges_count \<leftarrow> count_in_edges b;
       (g, c) \<leftarrow> parallelize_task b (for_range (prune_node b)) (graph b, in_edges_count);
       Some (b\<lparr>graph := g\<rparr>)
     }"

subsection \<open>add_reverse_edges\<close>

definition reverse_entry :: "nat \<Rightarrow> Node \<Rightarrow> Linklist list \<Rightarrow> Linklist list option" where
  "reverse_entry i n rg =
     (if ident n < length rg then
        Some (rg[ident n := (rg ! ident n)
                \<lparr>neighbors := neighbors (rg ! ident n) @ [new_Node i (distance n)]\<rparr>])
      else None)"

definition reverse_node :: "Linklist list \<Rightarrow> nat \<Rightarrow> Linklist list \<Rightarrow> Linklist list option" where
  "reverse_node g i rg = (if i < length g then for_each (reverse_entry i) (neighbors (g ! i)) rg else None)"

definition merge_reverse :: "ODescent \<Rightarrow> Linklist list \<Rightarrow> nat \<Rightarrow> Linklist list \<Rightarrow> Linklist list option" where
  "merge_reverse b rg i g =
     (if i < length g \<and> i < length rg then
        Some (g[i := (g ! i)\<lparr>neighbors :=
                 compact (max_degree b) (neighbors (g ! i) @ neighbors (rg ! i))\<rparr>])
      else None)"

definition add_reverse_edges :: "ODescent \<Rightarrow> ODescent option" where
  "add_reverse_edges b =
     do {
       let reverse_graph = replicate (nat (data_num b)) new_Linklist;
       rg \<leftarrow> for_range (reverse_node (graph b)) 0 (nat (data_num b)) reverse_graph;
       g \<leftarrow> parallelize_task b (for_range (merge_reverse b rg)) (graph b);
       Some (b\<lparr>graph := g\<rparr>)
     }"

subsection \<open>Build\<close>

text \<open>One turn of the loop in \<open>Build\<close>.\<close>

definition build_turn ::
  "ODescent \<times> nat list list \<times> nat list list \<times> Entropy
     \<Rightarrow> (ODescent \<times> nat list list \<times> nat list list \<times> Entropy) option" where
  "build_turn = (\<lambda>(b, old_neighbors, new_neighbors, en).
     do {
       (b1, o1, n1, en1) \<leftarrow> sample_candidates b (old_neighbors, new_neighbors, en);
       (b2, o2, n2) \<leftarrow> update_neighbors b1 (o1, n1);
       b3 \<leftarrow> repair_no_in_edge b2;
       Some (b3, o2, n2, en1)
     })"

text \<open>
  \<open>Build\<close> returns its boolean result, the object and the entropy left. The vectors of
  \<open>data_num_\<close> elements cannot be made for a negative count: no result.
\<close>

definition Build :: "ODescent \<Rightarrow> Entropy \<Rightarrow> (bool \<times> ODescent \<times> Entropy) option" where
  "Build b en =
     (if is_build b then Some (False, b, en)
      else
        (let b1 = b\<lparr>is_build := True, data_num := TotalCount b\<rparr>;
             b2 = b1\<lparr>min_in_degree := min (min_in_degree b1) (data_num b1 - 1)\<rparr> in
         if data_num b2 < 0 then None
         else
           do {
             let old_neighbors = replicate (nat (data_num b2)) [];
             let new_neighbors = replicate (nat (data_num b2)) [];
             (b3, en1) \<leftarrow> init_graph b2 en;
             (b4, o4, n4, en2) \<leftarrow>
                for_range (\<lambda>i. build_turn) 0 (nat (turn b3)) (b3, old_neighbors, new_neighbors, en1);
             b5 \<leftarrow> (if pruning b4 then do { b' \<leftarrow> prune_graph b4; add_reverse_edges b' }
                    else Some b4);
             Some (True, b5, en2)
           }))"

subsection \<open>GetGraph and SaveGraph\<close>

definition GetGraph :: "ODescent \<Rightarrow> nat list list option" where
  "GetGraph b =
     (if nat (data_num b) \<le> length (graph b)
      then Some (map (\<lambda>i. map ident (neighbors (graph b ! i))) [0..<nat (data_num b)])
      else None)"

text \<open>
  The output stream: its bytes and the put position. \<open>put\<close> is the member \<open>write\<close>: it overwrites the bytes at the
  position and extends the stream past its end. An integer is written as its bytes in
  memory; the model fixes the little-endian layout (x86-64, \<open>size_t\<close> of 64 bits).
\<close>

record stream =
  bytes :: "8 word list"
  pos :: nat

definition seekp :: "nat \<Rightarrow> stream \<Rightarrow> stream option" where
  "seekp off out = (if off \<le> length (bytes out) then Some (out\<lparr>pos := off\<rparr>) else None)"

definition put :: "8 word list \<Rightarrow> stream \<Rightarrow> stream" where
  "put bs out =
     \<lparr> bytes = take (pos out) (bytes out) @ bs @ drop (pos out + length bs) (bytes out),
       pos = pos out + length bs \<rparr>"

definition le_bytes :: "nat \<Rightarrow> 'a::len word \<Rightarrow> 8 word list" where
  "le_bytes n w = map (\<lambda>k. ucast (drop_bit (8 * k) w)) [0..<n]"

definition u32 :: "32 word \<Rightarrow> 8 word list" where
  "u32 w = le_bytes 4 w"

definition u64 :: "64 word \<Rightarrow> 8 word list" where
  "u64 w = le_bytes 8 w"

text \<open>The four writes before the loop: the placeholder \<open>index_size = 24\<close>, \<open>max_degree = 0\<close>,
  \<open>ep_u32 = 0\<close> and \<open>num_frozen = 0\<close>.\<close>

definition save_header :: "stream \<Rightarrow> stream" where
  "save_header out = put (u64 0) (put (u32 0) (put (u32 0) (put (u64 24) out)))"

text \<open>The body of the loop over the nodes, on the stream, \<open>max_degree\<close> and \<open>index_size\<close>.
  \<open>gk\<close> is the size cast to 32 bits; \<open>gk + 1\<close> is computed in 32 bits.\<close>

definition save_node ::
  "nat list \<Rightarrow> stream \<times> 32 word \<times> 64 word \<Rightarrow> stream \<times> 32 word \<times> 64 word" where
  "save_node row = (\<lambda>(out, max_degree, index_size).
     (let gk = (word_of_nat (length row) :: 32 word);
          out1 = put (u32 gk) out;
          out2 = put (concat (map (\<lambda>i. u32 (word_of_nat i)) (take (unat gk) row))) out1;
          max_degree' = (if length row > unat max_degree then word_of_nat (length row) else max_degree);
          index_size' = index_size + 4 * ucast (gk + 1)
      in (out2, max_degree', index_size')))"

text \<open>The counter of the loop is a \<open>uint32_t\<close> compared with the 64-bit \<open>data_num_\<close>: from
  \<open>2^32\<close> points on the loop does not end.\<close>

definition SaveGraph :: "ODescent \<Rightarrow> stream \<Rightarrow> stream option" where
  "SaveGraph b out =
     do {
       out0 \<leftarrow> seekp 0 out;
       let out1 = save_header out0;
       final_graph \<leftarrow> GetGraph b;
       (out2, max_degree, index_size) \<leftarrow>
          (if data_num b < 2 ^ 32 then Some (fold save_node final_graph (out1, 0, 24)) else None);
       out3 \<leftarrow> seekp 0 out2;
       Some (put (u32 max_degree) (put (u64 index_size) out3))
     }"

section \<open>Concrete inputs\<close>

text \<open>Points of the plane with integer coordinates under the squared Euclidean distance,
  as a \<open>ComputePairVectors\<close>.\<close>

definition sq_dist :: "(int \<times> int) list \<Rightarrow> nat \<Rightarrow> nat \<Rightarrow> real" where
  "sq_dist pts i j =
     real_of_int ((fst (pts ! i) - fst (pts ! j))\<^sup>2 + (snd (pts ! i) - snd (pts ! j))\<^sup>2)"

definition four_points :: "(int \<times> int) list" where
  "four_points = [(0, 0), (1, 0), (0, 1), (3, 3)]"

definition six_points :: "(int \<times> int) list" where
  "six_points = [(0, 0), (1, 0), (- 9, 0), (10, 0), (0, 10), (0, - 11)]"

text \<open>An entropy with no draws left and a clock that stands at 0.\<close>

definition no_entropy :: Entropy where
  "no_entropy = \<lparr>draws = [], clock = (\<lambda>k. 0), reads = 0\<rparr>"

definition node :: "bool \<Rightarrow> nat \<Rightarrow> real \<Rightarrow> Node" where
  "node o' i d = \<lparr>old = o', ident = i, distance = d\<rparr>"


section \<open>Notions used in the statements about the builder\<close>

text \<open>The in-degree of \<open>v\<close> in a graph: the number of entries with id \<open>v\<close> in all link
  lists, as \<open>in_edges_count\<close> counts them.\<close>

definition in_degree :: "Linklist list \<Rightarrow> nat \<Rightarrow> int" where
  "in_degree g v = (\<Sum>l\<leftarrow>g. int (count_list (map ident (neighbors l)) v))"








text \<open>The six points with the two nearest neighbors of each as its link list.\<close>

definition six_nodes :: ODescent where
  "six_nodes = (new_ODescent 2 1 1 1 6 (sq_dist six_points) True)
     \<lparr> data_num := 6,
       graph := map (\<lambda>(i, ids).
                  \<lparr>neighbors = map (\<lambda>j. node True j (sq_dist six_points i j)) ids,
                   greast_neighbor_distance = sq_dist six_points i (last ids)\<rparr>)
                  [(0, [1, 2]), (1, [0, 3]), (2, [0, 1]), (3, [1, 0]), (4, [0, 1]), (5, [0, 1])] \<rparr>"

text \<open>The graph file of the specification: the header of 24 bytes, then for every node
  the length of its adjacency and the neighbor ids.\<close>

definition encode_row :: "nat list \<Rightarrow> 8 word list" where
  "encode_row row = u32 (word_of_nat (length row)) @ concat (map (\<lambda>i. u32 (word_of_nat i)) row)"

definition encode_graph :: "nat list list \<Rightarrow> 8 word list" where
  "encode_graph rows =
     (let body = concat (map encode_row rows)
      in u64 (word_of_nat (24 + length body))
         @ u32 (word_of_nat (Max (set (0 # map length rows))))
         @ u32 0 @ u64 0 @ body)"

(*MODEL-END*)

section \<open>Verification: the iterator filter context\<close>

lemma pq_top_Some: "h \<noteq> [] \<Longrightarrow> pq_top h = Some (Max (set h))"
  by (simp add: pq_top_def)













lemma exec_list_len: "exec x c = Some c' \<Longrightarrow> length (visited_list c') = length (visited_list c)"
  by (cases x) (auto simp: AddDiscardNode_def PopDiscard_def SetOFFFirstUsed_def SetPoint_def
      SetVisited_def SetDistance_def split: if_splits option.splits)

lemma exec_bit_kept:
  "exec x c = Some c' \<Longrightarrow> i < length (visited_list c) \<Longrightarrow> visited_list c ! i = 1 \<Longrightarrow> visited_list c' ! i = 1"
  by (cases x) (auto simp: AddDiscardNode_def PopDiscard_def SetOFFFirstUsed_def SetPoint_def
      SetVisited_def SetDistance_def nth_list_update split: if_splits option.splits)

lemma run_bit_kept:
  "run xs c = Some c' \<Longrightarrow> i < length (visited_list c) \<Longrightarrow> visited_list c ! i = 1
   \<Longrightarrow> i < length (visited_list c') \<and> visited_list c' ! i = 1"
proof (induction xs arbitrary: c)
  case Nil
  then show ?case by simp
next
  case (Cons x xs)
  then obtain d where d: "exec x c = Some d" "run xs d = Some c'"
    by (auto split: option.splits)
  from exec_list_len[OF d(1)] exec_bit_kept[OF d(1) Cons.prems(2,3)] Cons.prems(2)
  have "i < length (visited_list d)" "visited_list d ! i = 1" by simp_all
  from Cons.IH[OF d(2) this] show ?case .
qed

lemma run_list_len: "run xs c = Some c' \<Longrightarrow> length (visited_list c') = length (visited_list c)"
  by (induction xs arbitrary: c) (auto split: option.splits dest: exec_list_len)

lemma init_list_len: "init first ok n e = Inr c \<Longrightarrow> length (visited_list c) = n"
  by (auto simp: init_def split: if_splits)

text \<open>
  Claim C4. In a context created by \<open>init\<close> with \<open>max_size = n\<close>, in any state \<open>c1\<close> it has
  reached, \<open>SetPoint i\<close> with \<open>i < n\<close> succeeds, and after it \<open>CheckPoint i\<close> returns false
  in every state reached by any further calls of the member functions: no call clears the
  bit.
\<close>

theorem point_used_bit_accumulates:
  assumes "init first ok n e = Inr (c0 :: 'v::len IteratorFilterContext)"
    and "run pre c0 = Some c1" and "i < n"
  shows "\<exists>c2. SetPoint i c1 = Some c2 \<and>
           (\<forall>post c3. run post c2 = Some c3 \<longrightarrow> CheckPoint i c3 = Some False)"
proof -
  have len1: "length (visited_list c1) = n"
    using init_list_len[OF assms(1)] run_list_len[OF assms(2)] by simp
  define c2 where "c2 = c1\<lparr>visited_list := (visited_list c1)[i := 1]\<rparr>"
  have sp: "SetPoint i c1 = Some c2"
    using len1 assms(3) by (simp add: SetPoint_def c2_def)
  have bit2: "i < length (visited_list c2)" "visited_list c2 ! i = 1"
    using len1 assms(3) by (simp_all add: c2_def)
  have "CheckPoint i c3 = Some False" if "run post c2 = Some c3" for post c3
    using run_bit_kept[OF that bit2] by (simp add: CheckPoint_def)
  with sp show ?thesis by blast
qed

theorem point_used_bit_accumulates_witness:
  "\<exists>(c0 :: 8 IteratorFilterContext) c1 c2 c3.
      init True True 3 2 = Inr c0
    \<and> run [CallAddDiscardNode 1 0, CallSetVisited 1] c0 = Some c1
    \<and> SetPoint 2 c1 = Some c2
    \<and> run [CallSetPoint 0, CallPopDiscard, CallSetVisited 2, CallSetOFFFirstUsed] c2 = Some c3
    \<and> CheckPoint 2 c3 = Some False"
proof -
  obtain c0 :: "8 IteratorFilterContext" where c0: "init True True 3 2 = Inr c0"
    by (simp add: init_def)
  obtain c1 where c1: "run [CallAddDiscardNode 1 0, CallSetVisited 1] c0 = Some c1"
    using c0 by (auto simp: init_def AddDiscardNode_def size_ge_i64_def pq_emplace_def SetVisited_def)
  from point_used_bit_accumulates[OF c0 c1, of 2]
  obtain c2 where c2: "SetPoint 2 c1 = Some c2"
    and post: "\<And>post c3. run post c2 = Some c3 \<Longrightarrow> CheckPoint 2 c3 = Some False"
    by auto
  obtain c3 where c3: "run [CallSetPoint 0, CallPopDiscard, CallSetVisited 2, CallSetOFFFirstUsed] c2 = Some c3"
    using c0 c1 c2
    by (auto simp: init_def AddDiscardNode_def size_ge_i64_def pq_emplace_def SetVisited_def SetPoint_def
        PopDiscard_def pq_pop_def SetOFFFirstUsed_def split: if_splits)
  from post[OF c3] c0 c1 c2 c3 show ?thesis by blast
qed

section \<open>Verification: the distance kernels\<close>







lemma INT8InnerProductDistance_at_ones: "INT8InnerProductDistance [1] [1] 1 = Some (- 1)"
  by (simp add: INT8InnerProductDistance_def INT8InnerProduct_def INT8InnerProduct_loop.simps)

section \<open>Verification: loops\<close>

subsection \<open>Loops\<close>

lemma fold_bind_None: "fold (\<lambda>x r. Option.bind r (body x)) xs None = None"
  by (induction xs) simp_all

lemma for_each_Nil [simp]: "for_each body [] s = Some s"
  by (simp add: for_each_def)

lemma for_each_Cons:
  "for_each body (x # xs) s = (case body x s of None \<Rightarrow> None | Some s' \<Rightarrow> for_each body xs s')"
  by (simp add: for_each_def fold_bind_None split: option.splits)


lemma for_range_for_each: "for_range body a c s = for_each body [a..<c] s"
  by (simp add: for_range_def for_each_def)

lemma for_range_empty [simp]: "c \<le> a \<Longrightarrow> for_range body a c s = Some s"
  by (simp add: for_range_for_each)



lemma for_each_invariant:
  assumes "for_each body xs s = Some s'" and "P s"
    and "\<And>x t t'. x \<in> set xs \<Longrightarrow> P t \<Longrightarrow> body x t = Some t' \<Longrightarrow> P t'"
  shows "P s'"
  using assms
proof (induction xs arbitrary: s)
  case Nil
  then show ?case by simp
next
  case (Cons x xs)
  from Cons.prems(1) obtain t where t: "body x s = Some t" "for_each body xs t = Some s'"
    by (auto simp: for_each_Cons split: option.splits)
  have "P t" using Cons.prems(2,3) t(1) by auto
  with Cons.IH[OF t(2)] Cons.prems(3) show ?case by auto
qed

lemma for_range_invariant:
  assumes "for_range body a c s = Some s'" and "P s"
    and "\<And>i t t'. a \<le> i \<Longrightarrow> i < c \<Longrightarrow> P t \<Longrightarrow> body i t = Some t' \<Longrightarrow> P t'"
  shows "P s'"
  using assms(1) assms(2)
  by (rule for_each_invariant[where body = body and xs = "[a..<c]", unfolded for_range_for_each[symmetric]])
     (use assms(3) in auto)





section \<open>Verification: the ODescent builder\<close>

subsection \<open>Sorting, deduplication, truncation\<close>

lemma node_less_distance: "node_less a b \<Longrightarrow> distance a \<le> distance b"
  by (auto simp: node_less_def split: if_splits)

lemma not_node_less_distance: "\<not> node_less a b \<Longrightarrow> distance b \<le> distance a"
  by (auto simp: node_less_def split: if_splits)

lemma set_linear_insert [simp]: "set (linear_insert v xs) = insert v (set xs)"
  by (induction xs) auto

lemma length_linear_insert [simp]: "length (linear_insert v xs) = Suc (length xs)"
  by (induction xs) auto

lemma sorted_linear_insert:
  "sorted (map distance xs) \<Longrightarrow> sorted (map distance (linear_insert v xs))"
proof (induction xs)
  case Nil
  then show ?case by simp
next
  case (Cons x xs)
  show ?case
  proof (cases "node_less v x")
    case True
    with Cons.prems node_less_distance[OF True] show ?thesis by auto
  next
    case False
    with Cons not_node_less_distance[OF False] show ?thesis by auto
  qed
qed

lemma fold_linear_insert:
  "sorted (map distance acc) \<Longrightarrow>
   sorted (map distance (fold linear_insert xs acc))
   \<and> set (fold linear_insert xs acc) = set xs \<union> set acc
   \<and> length (fold linear_insert xs acc) = length xs + length acc"
  by (induction xs arbitrary: acc) (auto simp: sorted_linear_insert)

lemma sorted_std_sort: "sorted (map distance (std_sort xs))"
  using fold_linear_insert[of "[]" xs] by (simp add: std_sort_def)

lemma set_std_sort [simp]: "set (std_sort xs) = set xs"
  using fold_linear_insert[of "[]" xs] by (simp add: std_sort_def)

lemma length_std_sort [simp]: "length (std_sort xs) = length xs"
  using fold_linear_insert[of "[]" xs] by (simp add: std_sort_def)

lemma set_std_unique: "set (std_unique xs) \<subseteq> set xs"
  by (induction xs rule: std_unique.induct) auto

lemma sorted_std_unique:
  "sorted (map distance xs) \<Longrightarrow> sorted (map distance (std_unique xs))"
proof (induction xs rule: std_unique.induct)
  case (3 x y ys)
  show ?case
  proof (cases "node_eq x y")
    case True
    with 3 show ?thesis by auto
  next
    case False
    with 3 set_std_unique[of "y # ys"] show ?thesis by auto
  qed
qed simp_all

lemma to_size_t_nat: "0 \<le> x \<Longrightarrow> x < 2 ^ 63 \<Longrightarrow> to_size_t x = nat x"
  by (simp add: to_size_t_def)

lemma truncate_to_take: "truncate_to md xs = take (to_size_t md) xs"
  by (simp add: truncate_to_def)

lemma length_compact: "0 \<le> md \<Longrightarrow> md < 2 ^ 63 \<Longrightarrow> int (length (compact md xs)) \<le> md"
  by (simp add: compact_def truncate_to_take to_size_t_nat)

lemma sorted_compact: "sorted (map distance (compact md xs))"
  using sorted_std_unique[OF sorted_std_sort, of xs]
  by (simp add: compact_def truncate_to_take sorted_wrt_take take_map[symmetric])

lemma set_compact: "set (compact md xs) \<subseteq> set xs"
  using set_std_unique[of "std_sort xs"] set_take_subset[of "to_size_t md" "std_unique (std_sort xs)"]
  by (auto simp: compact_def truncate_to_take)

text \<open>
  The compaction does not remove every repeated id. Two neighbors at one distance, both
  present as old and as new entries: whatever order a sort gives to equivalent entries,
  the old ones come first and the new entries of the same two ids follow, so no run of
  equal ids covers all entries of an id.
\<close>

lemma compact_keeps_duplicate_ids:
  "map ident (compact 4 [node True 1 1, node True 2 1, node False 1 1, node False 2 1]) = [1, 2, 1, 2]"
  by (simp add: compact_def std_sort_def node_def node_less_def node_eq_def truncate_to_def
      to_size_t_def)

text \<open>
  Claim C6 says that after the compaction step of \<open>update_neighbors\<close>, after the pruning
  pass and after the reverse-edge pass every adjacency list has at most \<open>max_degree\<close>
  entries, no repeated neighbor id, and is sorted by ascending distance. The bound and the
  order hold for every compacted list (\<open>length_compact\<close>, \<open>sorted_compact\<close>). The ids may
  repeat: \<open>Build\<close> on four points of the plane, of which \<open>(1, 0)\<close> and \<open>(0, 1)\<close> are
  equidistant from \<open>(0, 0)\<close> and from \<open>(3, 3)\<close>, with \<open>max_degree = 4\<close>, one turn, sample
  rate 1 and no pruning, ends with the adjacency \<open>[1, 2, 1, 2]\<close> for the nodes 0 and 3: a
  repeated id took the slot of a neighbor.
\<close>

theorem build_keeps_duplicate_ids:
  "map_option (\<lambda>(r, b, e). (r, GetGraph b))
     (Build (new_ODescent 4 1 1 1 4 (sq_dist four_points) False) no_entropy)
   = Some (True, Some [[1, 2, 1, 2], [0, 2, 3], [0, 1, 3], [1, 2, 1, 2]])"
  by code_simp



subsection \<open>init_graph\<close>


















subsection \<open>The in-degree count\<close>



lemma in_degree_Nil [simp]: "in_degree [] v = 0"
  by (simp add: in_degree_def)









subsection \<open>repair_no_in_edge\<close>








subsection \<open>prune_graph\<close>











subsection \<open>SaveGraph\<close>

lemma length_le_bytes [simp]: "length (le_bytes n w) = n"
  by (simp add: le_bytes_def)

lemma length_u32 [simp]: "length (u32 w) = 4"
  by (simp add: u32_def)

lemma length_u64 [simp]: "length (u64 w) = 8"
  by (simp add: u64_def)

lemma length_concat_u32 [simp]: "length (concat (map (\<lambda>i. u32 (f i)) row)) = 4 * length row"
  by (induction row) simp_all

lemma length_encode_row: "length (encode_row row) = 4 * (length row + 1)"
  by (simp add: encode_row_def)

lemma length_concat_encode_row:
  "length (concat (map encode_row rows)) = (\<Sum>row\<leftarrow>rows. 4 * (length row + 1))"
  by (induction rows) (simp_all add: length_encode_row)

text \<open>A stream that holds \<open>w\<close> from its start and stands at the end of \<open>w\<close>, the bytes \<open>rest\<close>
  it held before showing through behind \<open>w\<close>.\<close>

lemma put_appends:
  assumes "bytes out = w @ drop (length w) rest" and "pos out = length w"
  shows "bytes (put bs out) = (w @ bs) @ drop (length (w @ bs)) rest
       \<and> pos (put bs out) = length (w @ bs)"
  using assms by (simp add: put_def add.commute)

lemma save_header_bytes:
  assumes "pos out = 0"
  shows "bytes (save_header out) = (u64 24 @ u32 0 @ u32 0 @ u64 0) @ drop 24 (bytes out)
       \<and> pos (save_header out) = 24"
proof -
  have 0: "bytes out = [] @ drop (length ([] :: 8 word list)) (bytes out)" "pos out = length ([] :: 8 word list)"
    using assms by simp_all
  note 1 = put_appends[OF 0, of "u64 24"]
  note 2 = put_appends[OF 1[THEN conjunct1] 1[THEN conjunct2], of "u32 0"]
  note 3 = put_appends[OF 2[THEN conjunct1] 2[THEN conjunct2], of "u32 0"]
  note 4 = put_appends[OF 3[THEN conjunct1] 3[THEN conjunct2], of "u64 0"]
  from 4 show ?thesis by (simp add: save_header_def)
qed

lemma unat_word_of_nat_32: "n < 2 ^ 32 \<Longrightarrow> unat (word_of_nat n :: 32 word) = n"
  by (simp add: unat_of_nat)

lemma save_node_step:
  assumes "bytes out = w @ drop (length w) rest" and "pos out = length w"
    and "m < 2 ^ 32" and "length row < 2 ^ 32 - 1"
  shows "\<exists>out'. save_node row (out, word_of_nat m, word_of_nat z)
              = (out', word_of_nat (max (length row) m), word_of_nat (z + length (encode_row row)))
          \<and> bytes out' = (w @ encode_row row) @ drop (length (w @ encode_row row)) rest
          \<and> pos out' = length (w @ encode_row row)"
proof -
  let ?gk = "word_of_nat (length row) :: 32 word"
  have gk: "unat ?gk = length row" using assms(4) by (simp add: unat_word_of_nat_32)
  have m: "unat (word_of_nat m :: 32 word) = m" using assms(3) by (simp add: unat_word_of_nat_32)
  have "?gk + 1 = word_of_nat (length row + 1)" by simp
  moreover have "unat (word_of_nat (length row + 1) :: 32 word) = length row + 1"
    using assms(4) by (intro unat_word_of_nat_32) simp
  ultimately have "(ucast (?gk + 1) :: 64 word) = word_of_nat (length row + 1)"
    by (metis of_nat_unat)
  then have sz: "(word_of_nat z :: 64 word) + 4 * ucast (?gk + 1)
      = word_of_nat (z + length (encode_row row))"
    by (simp add: length_encode_row)
  have md: "(if length row > m then word_of_nat (length row) else word_of_nat m :: 32 word)
      = word_of_nat (max (length row) m)"
    by (simp add: max_def)
  let ?o1 = "put (u32 ?gk) out"
  let ?o2 = "put (concat (map (\<lambda>i. u32 (word_of_nat i)) row)) ?o1"
  note 1 = put_appends[OF assms(1,2), of "u32 ?gk"]
  note 2 = put_appends[OF 1[THEN conjunct1] 1[THEN conjunct2], of "concat (map (\<lambda>i. u32 (word_of_nat i)) row)"]
  have "save_node row (out, word_of_nat m, word_of_nat z)
      = (?o2, word_of_nat (max (length row) m), word_of_nat (z + length (encode_row row)))"
    using sz md by (simp add: save_node_def Let_def gk m del: of_nat_add of_nat_Suc)
  moreover have "bytes ?o2 = (w @ encode_row row) @ drop (length (w @ encode_row row)) rest
      \<and> pos ?o2 = length (w @ encode_row row)"
    using 2 by (simp add: encode_row_def)
  ultimately show ?thesis by blast
qed

lemma fold_save_node:
  assumes "bytes out = w @ drop (length w) rest" and "pos out = length w"
    and "m < 2 ^ 32" and "\<forall>row \<in> set rows. length row < 2 ^ 32 - 1"
  shows "\<exists>out'. fold save_node rows (out, word_of_nat m, word_of_nat z)
              = (out', word_of_nat (fold max (map length rows) m),
                 word_of_nat (z + length (concat (map encode_row rows))))
          \<and> bytes out' = (w @ concat (map encode_row rows))
                           @ drop (length (w @ concat (map encode_row rows))) rest
          \<and> pos out' = length (w @ concat (map encode_row rows))"
  using assms
proof (induction rows arbitrary: out w m z)
  case Nil
  then show ?case by simp
next
  case (Cons row rows)
  from Cons.prems(4) have row: "length row < 2 ^ 32 - 1" and rows: "\<forall>r \<in> set rows. length r < 2 ^ 32 - 1"
    by simp_all
  from save_node_step[OF Cons.prems(1,2,3) row, of z] obtain o1 where
    o1: "save_node row (out, word_of_nat m, word_of_nat z)
           = (o1, word_of_nat (max (length row) m), word_of_nat (z + length (encode_row row)))"
        "bytes o1 = (w @ encode_row row) @ drop (length (w @ encode_row row)) rest"
        "pos o1 = length (w @ encode_row row)"
    by blast
  have m': "max (length row) m < 2 ^ 32" using row Cons.prems(3) by simp
  from Cons.IH[OF o1(2,3) m' rows, of "z + length (encode_row row)"] obtain o2 where
    o2: "fold save_node rows (o1, word_of_nat (max (length row) m), word_of_nat (z + length (encode_row row)))
           = (o2, word_of_nat (fold max (map length rows) (max (length row) m)),
              word_of_nat (z + length (encode_row row) + length (concat (map encode_row rows))))"
        "bytes o2 = ((w @ encode_row row) @ concat (map encode_row rows))
                      @ drop (length ((w @ encode_row row) @ concat (map encode_row rows))) rest"
        "pos o2 = length ((w @ encode_row row) @ concat (map encode_row rows))"
    by blast
  show ?case
    using o1(1) o2 by (simp add: add.assoc)
qed


text \<open>
  Claim C7. For a builder whose graph has a link list for each of its \<open>data_num\<close> nodes
  (\<open>GetGraph\<close> returns the rows of ids), fewer than \<open>2^32\<close> nodes and adjacencies shorter
  than \<open>2^32 - 1\<close>: the four writes before the loop leave the placeholder header, with
  \<open>index_size = 24\<close> and \<open>max_degree = 0\<close>, at the start of the stream; \<open>SaveGraph\<close> returns
  with \<open>encode_graph rows\<close> at the start of the stream (all of the stream, if it was not
  longer before): \<open>index_size\<close>, overwritten with the byte count of header and body,
  \<open>max_degree\<close>, overwritten with the greatest adjacency length, the entry point 0, the
  frozen count 0, then every node's adjacency length and ids in the order of the ids.
\<close>

theorem SaveGraph_layout:
  assumes "GetGraph b = Some rows" and "data_num b < 2 ^ 32"
    and "\<forall>row \<in> set rows. length row < 2 ^ 32 - 1"
  shows "bytes (save_header (out\<lparr>pos := 0\<rparr>)) = (u64 24 @ u32 0 @ u32 0 @ u64 0) @ drop 24 (bytes out)
       \<and> SaveGraph b out = Some \<lparr>bytes = encode_graph rows @ drop (length (encode_graph rows)) (bytes out),
                                 pos = 12\<rparr>
       \<and> length (encode_graph rows) = 24 + (\<Sum>row\<leftarrow>rows. 4 * (length row + 1))"
proof -
  let ?hdr = "u64 24 @ u32 0 @ u32 0 @ u64 0"
  let ?body = "concat (map encode_row rows)"
  let ?out0 = "out\<lparr>pos := 0\<rparr>"
  have hd: "bytes (save_header ?out0) = ?hdr @ drop (length ?hdr) (bytes out)"
    "pos (save_header ?out0) = length ?hdr"
    using save_header_bytes[of ?out0] by simp_all
  from fold_save_node[OF hd, of 0 rows 24] assms(3) obtain out2 where
    f: "fold save_node rows (save_header ?out0, 0, 24)
          = (out2, word_of_nat (fold max (map length rows) 0), word_of_nat (24 + length ?body))"
    and b2: "bytes out2 = (?hdr @ ?body) @ drop (length (?hdr @ ?body)) (bytes out)"
    by auto
  have mx: "fold max (map length rows) 0 = Max (set (0 # map length rows))"
    by (simp only: Max.set_eq_fold)
  let ?isz = "word_of_nat (24 + length ?body) :: 64 word"
  let ?md = "word_of_nat (Max (set (0 # map length rows))) :: 32 word"
  have fin: "put (u32 ?md) (put (u64 ?isz) (out2\<lparr>pos := 0\<rparr>))
      = \<lparr>bytes = encode_graph rows @ drop (length (encode_graph rows)) (bytes out), pos = 12\<rparr>"
    by (simp add: put_def b2 encode_graph_def Let_def)
  have "SaveGraph b out = Some (put (u32 ?md) (put (u64 ?isz) (out2\<lparr>pos := 0\<rparr>)))"
    using assms(1,2) f unfolding mx by (simp add: SaveGraph_def seekp_def)
  with fin hd(1) show ?thesis
    by (simp add: encode_graph_def Let_def length_concat_encode_row)
qed

theorem SaveGraph_layout_witness:
  "SaveGraph six_nodes \<lparr>bytes = [], pos = 0\<rparr>
     = Some \<lparr>bytes = encode_graph [[1, 2], [0, 3], [0, 1], [1, 0], [0, 1], [0, 1]], pos = 12\<rparr>
 \<and> length (encode_graph [[1, 2], [0, 3], [0, 1], [1, 0], [0, 1], [0, 1]]) = 96
 \<and> take 28 (encode_graph [[1, 2], [0, 3], [0, 1], [1, 0], [0, 1], [0, 1]])
     = [96, 0, 0, 0, 0, 0, 0, 0,  2, 0, 0, 0,  0, 0, 0, 0,  0, 0, 0, 0, 0, 0, 0, 0,
        2, 0, 0, 0]"
proof -
  let ?rows = "[[1, 2], [0, 3], [0, 1], [1, 0], [0, 1], [0, 1 :: nat]]"
  have g: "GetGraph six_nodes = Some ?rows"
    by code_simp
  have h: "data_num six_nodes < 2 ^ 32" "\<forall>row \<in> set ?rows. length row < 2 ^ 32 - 1"
    by (simp_all add: six_nodes_def)
  have t: "take 28 (encode_graph ?rows)
     = [96, 0, 0, 0, 0, 0, 0, 0,  2, 0, 0, 0,  0, 0, 0, 0,  0, 0, 0, 0, 0, 0, 0, 0, 2, 0, 0, 0]"
    by code_simp
  from SaveGraph_layout[OF g h, of "\<lparr>bytes = [], pos = 0\<rparr>"] t show ?thesis by simp
qed

subsection \<open>Build\<close>

lemma init_graph_is_build: "init_graph b en = Some (b', en') \<Longrightarrow> is_build b' = is_build b"
  by (auto simp: init_graph_def Let_def split: Option.bind_splits)

lemma sample_candidates_is_build:
  "sample_candidates b s = Some (b', o', n', en') \<Longrightarrow> is_build b' = is_build b"
  by (cases s) (auto simp: sample_candidates_def split: Option.bind_splits)

lemma update_neighbors_is_build:
  "update_neighbors b s = Some (b', o', n') \<Longrightarrow> is_build b' = is_build b"
  by (cases s) (auto simp: update_neighbors_def split: Option.bind_splits)

lemma repair_no_in_edge_is_build: "repair_no_in_edge b = Some b' \<Longrightarrow> is_build b' = is_build b"
  by (auto simp: repair_no_in_edge_def Let_def split: Option.bind_splits)

lemma prune_graph_is_build: "prune_graph b = Some b' \<Longrightarrow> is_build b' = is_build b"
  by (auto simp: prune_graph_def split: Option.bind_splits)

lemma add_reverse_edges_is_build: "add_reverse_edges b = Some b' \<Longrightarrow> is_build b' = is_build b"
  by (auto simp: add_reverse_edges_def Let_def split: Option.bind_splits)

lemma build_turn_is_build:
  assumes "build_turn s = Some s'"
  shows "is_build (fst s') = is_build (fst s)"
proof -
  obtain b o0 n0 en where s: "s = (b, o0, n0, en)" by (cases s)
  from assms obtain b1 o1 n1 en1 b2 o2 n2 b3 where
    1: "sample_candidates b (o0, n0, en) = Some (b1, o1, n1, en1)"
    and 2: "update_neighbors b1 (o1, n1) = Some (b2, o2, n2)"
    and 3: "repair_no_in_edge b2 = Some b3"
    and s': "s' = (b3, o2, n2, en1)"
    by (auto simp: build_turn_def s split: Option.bind_splits)
  from sample_candidates_is_build[OF 1] update_neighbors_is_build[OF 2]
    repair_no_in_edge_is_build[OF 3]
  show ?thesis by (simp add: s s')
qed

lemma Build_sets_is_build:
  assumes "Build b en = Some (r, b', en')"
  shows "is_build b' \<and> r = (\<not> is_build b)"
proof (cases "is_build b")
  case True
  with assms show ?thesis by (simp add: Build_def)
next
  case False
  let ?b2 = "b\<lparr>is_build := True, data_num := TotalCount b,
                min_in_degree := min (min_in_degree b) (TotalCount b - 1)\<rparr>"
  let ?e = "replicate (nat (TotalCount b)) ([] :: nat list)"
  from assms False obtain b3 en1 b4 o4 n4 en2 where
    1: "init_graph ?b2 en = Some (b3, en1)"
    and 2: "for_range (\<lambda>i. build_turn) 0 (nat (turn b3)) (b3, ?e, ?e, en1) = Some (b4, o4, n4, en2)"
    and 3: "(if pruning b4 then Option.bind (prune_graph b4) add_reverse_edges else Some b4) = Some b'"
    and r: "r = True"
    by (auto simp: Build_def Let_def split: if_splits Option.bind_splits)
  from init_graph_is_build[OF 1] have b3: "is_build b3" by simp
  have "is_build (fst (b4, o4, n4, en2))"
    by (rule for_range_invariant[where P = "\<lambda>s. is_build (fst s)", OF 2])
       (use b3 build_turn_is_build in auto)
  then have b4: "is_build b4" by simp
  have "is_build b'"
  proof (cases "pruning b4")
    case True
    with 3 obtain b5 where "prune_graph b4 = Some b5" "add_reverse_edges b5 = Some b'"
      by (auto split: Option.bind_splits)
    with prune_graph_is_build add_reverse_edges_is_build b4 show ?thesis by simp
  next
    case False
    with 3 b4 show ?thesis by simp
  qed
  with r False show ?thesis by simp
qed

text \<open>
  Claim C10. When a call of \<open>Build\<close> has returned, with whatever result, on whatever
  entropy, every further call on the object returns \<open>false\<close> at once and leaves the object
  (and the entropy) as they are. The first call on an object not yet built returns \<open>true\<close>.
\<close>

theorem Build_runs_once:
  assumes "Build b en = Some (r, b', en')"
  shows "Build b' en2 = Some (False, b', en2) \<and> r = (\<not> is_build b)"
  using Build_sets_is_build[OF assms] by (simp add: Build_def)

theorem Build_runs_once_witness:
  "\<exists>b' en'. Build (new_ODescent 4 1 1 1 2 (sq_dist [(0, 0), (1, 0)]) True) no_entropy = Some (True, b', en')
     \<and> GetGraph b' = Some [[1], [0]]
     \<and> Build b' no_entropy = Some (False, b', no_entropy)"
proof -
  let ?b = "new_ODescent 4 1 1 1 2 (sq_dist [(0, 0), (1, 0)]) True"
  have "map_option (\<lambda>(r, b, e). (r, GetGraph b)) (Build ?b no_entropy) = Some (True, Some [[1], [0]])"
    by code_simp
  then obtain b' en' where 1: "Build ?b no_entropy = Some (True, b', en')"
    and g: "GetGraph b' = Some [[1], [0]]" by auto
  from Build_runs_once[OF 1, of no_entropy] 1 g show ?thesis by blast
qed

end
